theory Spec2Isabelle
  imports Main "HOL-Library.Multiset"
begin

section \<open>Values, errors and records\<close>

text \<open>
  The buffer of \<^verbatim>\<open>models/frames/buffers/buffer.py\<close> stores transition objects and
  serves batches of them. Scalars are opaque to the buffer (it never computes with them),
  so their type is a parameter \<open>'s\<close>. A tensor is its device, its shape and its elements
  in row-major order.
\<close>

type_synonym device = string

datatype 's pyval =
    Scalar 's
  | Tensor device "nat list" "'s list"
  | Dict "(string \<times> 's pyval) list"

text \<open>
  Every \<^verbatim>\<open>raise\<close> of the source and every exception of the Python and torch primitives
  it calls is a constructor. The two \<^verbatim>\<open>ValueError\<close>s of \<^verbatim>\<open>append\<close> are told apart
  by their message: the first formats the set of missing keys into it, the second is the
  fixed text "Transition object has different attributes!".
\<close>

datatype error =
    ValueError_missing_attributes "string set"
  | ValueError_different_attributes
  | RuntimeError_cannot_find_sample_method string
  | ValueError_sample
  | ValueError_empty_range
  | IndexError
  | ZeroDivisionError
  | AttributeError
  | KeyError
  | TypeError
  | TorchError

text \<open>The key names an error message carries.\<close>

fun carried_keys :: "error \<Rightarrow> string set" where
  "carried_keys (ValueError_missing_attributes ks) = ks"
| "carried_keys _ = {}"

text \<open>
  Modelled from the spec: the class \<^verbatim>\<open>Transition\<close> (\<^verbatim>\<open>transition.py\<close>) is not among the
  sources. A record holds three ordered mappings: \<open>major\<close> from attribute name to a mapping
  from sub-key to value, \<open>sub\<close> and \<open>custom\<close> from attribute name to value.
\<close>

record 's transition =
  major :: "(string \<times> (string \<times> 's pyval) list) list"
  sub :: "(string \<times> 's pyval) list"
  custom :: "(string \<times> 's pyval) list"

text \<open>
  Modelled from the spec: the properties \<^verbatim>\<open>major_attr\<close> and \<^verbatim>\<open>sub_attr\<close> are absent;
  they are the names of the major and of the sub attributes.
\<close>

definition major_attr :: "'s transition \<Rightarrow> string list" where
  "major_attr tr = map fst (major tr)"

definition sub_attr :: "'s transition \<Rightarrow> string list" where
  "sub_attr tr = map fst (sub tr)"

text \<open>
  Modelled from the spec: \<^verbatim>\<open>keys()\<close> is absent; it yields all attribute names present on
  the record in its natural key order, which is what the wildcard branch of
  \<^verbatim>\<open>post_process_batch\<close> filters the major and sub names out of.
\<close>

definition keys :: "'s transition \<Rightarrow> string list" where
  "keys tr = major_attr tr @ sub_attr tr @ map fst (custom tr)"

text \<open>
  Modelled from the spec: \<^verbatim>\<open>has_keys\<close> is absent; a candidate must expose, across its
  major and sub attributes, a superset of the required attributes.
\<close>

definition has_keys :: "'s transition \<Rightarrow> string list \<Rightarrow> bool" where
  "has_keys tr ks = (\<forall>k \<in> set ks. k \<in> set (major_attr tr) \<or> k \<in> set (sub_attr tr))"

text \<open>\<^verbatim>\<open>tensor.to(device)\<close>, extended to every value: only array-likes have a place.\<close>

primrec relocate :: "device \<Rightarrow> 's pyval \<Rightarrow> 's pyval" where
  "relocate d (Scalar x) = Scalar x"
| "relocate d (Tensor d0 sh xs) = Tensor d sh xs"
| "relocate d (Dict kvs) = Dict (map (map_prod id (relocate d)) kvs)"

text \<open>
  Modelled from the spec: \<^verbatim>\<open>Transition.to\<close> is absent; every array-like value inside the
  candidate is relocated to the storage location. The Python mutates the object in
  place, the model returns it.
\<close>

definition to :: "device \<Rightarrow> 's transition \<Rightarrow> 's transition" where
  "to d tr =
     \<lparr> major = map (map_prod id (map (map_prod id (relocate d)))) (major tr),
       sub = map (map_prod id (relocate d)) (sub tr),
       custom = map (map_prod id (relocate d)) (custom tr) \<rparr>"

text \<open>Whether every array-like inside a value, and inside a record, is on a device.\<close>

primrec on_device :: "device \<Rightarrow> 's pyval \<Rightarrow> bool" where
  "on_device d (Scalar x) = True"
| "on_device d (Tensor d0 sh xs) = (d0 = d)"
| "on_device d (Dict kvs) = list_all (pred_prod (\<lambda>_. True) (on_device d)) kvs"

definition all_on_device :: "device \<Rightarrow> 's transition \<Rightarrow> bool" where
  "all_on_device d tr =
     (list_all (\<lambda>(k, kvs). list_all (\<lambda>(k', v). on_device d v) kvs) (major tr) \<and>
      list_all (\<lambda>(k, v). on_device d v) (sub tr) \<and>
      list_all (\<lambda>(k, v). on_device d v) (custom tr))"

text \<open>
  Modelled from the spec: \<^verbatim>\<open>item[attr]\<close> is absent; it is the value of the attribute
  of that name, whatever its category: the mapping of a major attribute, the value of a
  sub or custom one. A name the record does not have raises.
\<close>

definition getitem :: "'s transition \<Rightarrow> string \<Rightarrow> error + 's pyval" where
  "getitem tr attr =
     (case map_of (major tr) attr of
        Some kvs \<Rightarrow> Inr (Dict kvs)
      | None \<Rightarrow>
         (case map_of (sub tr) attr of
            Some v \<Rightarrow> Inr v
          | None \<Rightarrow>
             (case map_of (custom tr) attr of
                Some v \<Rightarrow> Inr v
              | None \<Rightarrow> Inl AttributeError)))"

section \<open>The store\<close>

record 's Buffer =
  buffer_size :: int
  buffer_device :: device
  buffer :: "'s transition list"
  index :: int

definition init :: "int \<Rightarrow> device \<Rightarrow> 's Buffer" where
  "init n d = \<lparr> buffer_size = n, buffer_device = d, buffer = [], index = 0 \<rparr>"

definition size_buffer :: "'s Buffer \<Rightarrow> nat" where
  "size_buffer self = length (buffer self)"

text \<open>
  The position a Python list of length \<open>n\<close> gives to the index \<open>i\<close>: indices from
  \<open>-n\<close> up to \<open>n - 1\<close> are valid, the negative ones count from the end.
\<close>

definition py_index :: "nat \<Rightarrow> int \<Rightarrow> nat option" where
  "py_index n i =
     (if 0 \<le> i \<and> i < int n then Some (nat i)
      else if - int n \<le> i \<and> i < 0 then Some (nat (i + int n))
      else None)"

text \<open>\<^verbatim>\<open>xs[i] = v\<close> and \<^verbatim>\<open>xs[i]\<close>, which raise outside the valid indices.\<close>

definition py_setitem :: "'a list \<Rightarrow> int \<Rightarrow> 'a \<Rightarrow> error + 'a list" where
  "py_setitem xs i v =
     (case py_index (length xs) i of None \<Rightarrow> Inl IndexError | Some j \<Rightarrow> Inr (xs[j := v]))"

definition py_getitem :: "'a list \<Rightarrow> int \<Rightarrow> error + 'a" where
  "py_getitem xs i =
     (case py_index (length xs) i of None \<Rightarrow> Inl IndexError | Some j \<Rightarrow> Inr (xs ! j))"

text \<open>
  \<^verbatim>\<open>append\<close> on a transition object (a plain dict is first turned into one by the
  constructor, lines 46-47). The result is what the call returns or raises, the store
  after the call, and the candidate after the call: \<^verbatim>\<open>transition.to\<close> mutates the
  candidate before the comparison of the key lists.
\<close>

definition append_buffer ::
    "'s Buffer \<Rightarrow> 's transition \<Rightarrow> string list \<Rightarrow> (error + int) \<times> 's Buffer \<times> 's transition" where
  "append_buffer self transition required_attrs =
     (if \<not> has_keys transition required_attrs then
        (Inl (ValueError_missing_attributes (set required_attrs - set (keys transition))),
         self, transition)
      else
        let transition = to (buffer_device self) transition in
        if size_buffer self \<noteq> 0 \<and> keys (buffer self ! 0) \<noteq> keys transition then
          (Inl ValueError_different_attributes, self, transition)
        else
          let self =
            (if int (size_buffer self) > buffer_size self then
               self\<lparr>buffer := drop (nat (int (size_buffer self) - buffer_size self)) (buffer self)\<rparr>
             else self)
          in
          if int (size_buffer self) = buffer_size self then
            (case py_setitem (buffer self) (index self) transition of
               Inl e \<Rightarrow> (Inl e, self, transition)
             | Inr items \<Rightarrow>
                 let position = index self;
                     self = self\<lparr>buffer := items, index := index self + 1\<rparr>
                 in if buffer_size self = 0 then (Inl ZeroDivisionError, self, transition)
                    else (Inr position,
                          self\<lparr>index := index self mod buffer_size self\<rparr>, transition))
          else
            let self = self\<lparr>buffer := buffer self @ [transition]\<rparr>
            in (Inr (int (length (buffer self)) - 1), self, transition))"

definition clear :: "'s Buffer \<Rightarrow> 's Buffer" where
  "clear self = self\<lparr>buffer := []\<rparr>"

section \<open>Sampling strategies\<close>

text \<open>
  The strategies draw from Python's \<^verbatim>\<open>random\<close> module. The source of randomness is a
  parameter: \<open>rng i\<close> is the raw value of the \<open>i\<close>-th draw, reduced to the range the call
  asks for, so a statement for every \<open>rng\<close> is a statement for every outcome.
\<close>

type_synonym rng = "nat \<Rightarrow> nat"

text \<open>Exceptions propagate through a comprehension: the first one raised is the result.\<close>

fun try_map :: "('a \<Rightarrow> error + 'b) \<Rightarrow> 'a list \<Rightarrow> error + 'b list" where
  "try_map f [] = Inr []"
| "try_map f (x # xs) =
     (case f x of
        Inl e \<Rightarrow> Inl e
      | Inr y \<Rightarrow> (case try_map f xs of Inl e \<Rightarrow> Inl e | Inr ys \<Rightarrow> Inr (y # ys)))"

text \<open>
  \<^verbatim>\<open>random.sample(population, k)\<close>: \<open>k\<close> picks without replacement from a pool; the
  picked slot is refilled with the pool's last element.
\<close>

fun sample_pool :: "rng \<Rightarrow> 'a list \<Rightarrow> nat \<Rightarrow> 'a list" where
  "sample_pool rng pool 0 = []"
| "sample_pool rng pool (Suc k) =
     (let j = rng 0 mod length pool
      in pool ! j # sample_pool (\<lambda>i. rng (Suc i)) (butlast (pool[j := last pool])) k)"

definition random_sample :: "rng \<Rightarrow> 'a list \<Rightarrow> int \<Rightarrow> error + 'a list" where
  "random_sample rng population k =
     (if 0 \<le> k \<and> k \<le> int (length population) then Inr (sample_pool rng population (nat k))
      else Inl ValueError_sample)"

text \<open>\<^verbatim>\<open>random.randint(a, b)\<close>: an integer of \<open>[a, b]\<close>, an error when the range is empty.\<close>

definition random_randint :: "nat \<Rightarrow> int \<Rightarrow> int \<Rightarrow> error + int" where
  "random_randint r a b =
     (if b < a then Inl ValueError_empty_range else Inr (a + int (r mod nat (b - a + 1))))"

definition sample_method_random_unique ::
    "rng \<Rightarrow> 'a list \<Rightarrow> int \<Rightarrow> error + ('a list \<times> int)" where
  "sample_method_random_unique rng buf batch_size =
     (if int (length buf) < batch_size then
        (case random_sample rng buf (int (length buf)) of
           Inl e \<Rightarrow> Inl e
         | Inr batch \<Rightarrow> Inr (batch, int (length buf)))
      else
        (case random_sample rng buf batch_size of
           Inl e \<Rightarrow> Inl e
         | Inr batch \<Rightarrow> Inr (batch, batch_size)))"

definition sample_method_random ::
    "rng \<Rightarrow> 'a list \<Rightarrow> int \<Rightarrow> error + ('a list \<times> int)" where
  "sample_method_random rng buf batch_size =
     (case try_map (\<lambda>i. random_randint (rng i) 0 (int (length buf) - 1))
             [0..<nat batch_size] of
        Inl e \<Rightarrow> Inl e
      | Inr indexes \<Rightarrow>
          (case try_map (py_getitem buf) indexes of
             Inl e \<Rightarrow> Inl e
           | Inr batch \<Rightarrow> Inr (batch, batch_size)))"

definition sample_method_all :: "'a list \<Rightarrow> int \<Rightarrow> error + ('a list \<times> int)" where
  "sample_method_all buf _ = Inr (buf, int (length buf))"

text \<open>
  A strategy is selected by name or given as a function. \<^verbatim>\<open>hasattr\<close> and \<^verbatim>\<open>getattr\<close>
  look the name up among the attributes of the class, of which three start with
  \<^verbatim>\<open>sample_method_\<close>.
\<close>

datatype 's sample_method =
    Name string
  | Func "'s transition list \<Rightarrow> int \<Rightarrow> error + ('s transition list \<times> int)"

definition getattr_sample_method ::
    "rng \<Rightarrow> string \<Rightarrow> ('s transition list \<Rightarrow> int \<Rightarrow> error + ('s transition list \<times> int)) option" where
  "getattr_sample_method rng name =
     (if name = ''sample_method_random_unique'' then Some (sample_method_random_unique rng)
      else if name = ''sample_method_random'' then Some (sample_method_random rng)
      else if name = ''sample_method_all'' then Some sample_method_all
      else None)"

section \<open>Batch post-processing\<close>

text \<open>
  What a requested attribute resolves to: \<^verbatim>\<open>None\<close>, one value (a tensor), the list of
  the per-record values, or for a major attribute a dictionary of those.
\<close>

datatype 's result =
    PyNone
  | Single "'s pyval"
  | PyList "'s pyval list"
  | PyDict "(string \<times> 's result) list"

text \<open>
  The torch primitives the stacking rule calls. What torch does with a device and with a
  Python scalar is not decided by the buffer, so it is a parameter: \<open>available d\<close> says
  that torch accepts the device \<open>d\<close> (a known name of a device that is present), and
  \<open>cast xs x\<close> is the tensor element that \<^verbatim>\<open>t.tensor\<close> makes of the scalar \<open>x\<close> of the
  list \<open>xs\<close> (the element type is inferred from the whole list, and a value may be
  narrowed to it), or \<open>None\<close> when torch raises because the value does not fit. Every
  failure inside torch is the error \<open>TorchError\<close>.
\<close>

record 's torch =
  available :: "device \<Rightarrow> bool"
  cast :: "'s list \<Rightarrow> 's \<Rightarrow> 's option"

text \<open>\<^verbatim>\<open>v.to(device)\<close> exists on tensors only, and needs a device torch accepts.\<close>

fun tensor_to :: "'s torch \<Rightarrow> device \<Rightarrow> 's pyval \<Rightarrow> error + 's pyval" where
  "tensor_to T d (Tensor d0 sh xs) =
     (if available T d then Inr (Tensor d sh xs) else Inl TorchError)"
| "tensor_to T d _ = Inl AttributeError"

fun is_tensor :: "'s pyval \<Rightarrow> bool" where
  "is_tensor (Tensor d sh xs) = True"
| "is_tensor _ = False"

fun device_of :: "'s pyval \<Rightarrow> device" where
  "device_of (Tensor d sh xs) = d"
| "device_of _ = []"

fun leading :: "'s pyval \<Rightarrow> nat" where
  "leading (Tensor d sh xs) = hd sh"
| "leading _ = 0"

fun elements :: "'s pyval \<Rightarrow> 's list" where
  "elements (Tensor d sh xs) = xs"
| "elements _ = []"

text \<open>
  \<^verbatim>\<open>t.cat(batch, dim=0)\<close> takes tensors of one device. It leaves out those of shape
  \<open>(0,)\<close>; the others need a leading axis and equal remaining axes.
\<close>

fun empty_1d :: "'s pyval \<Rightarrow> bool" where
  "empty_1d (Tensor d sh xs) = (sh = [0])"
| "empty_1d _ = False"

fun cat_compatible :: "nat list \<Rightarrow> 's pyval \<Rightarrow> bool" where
  "cat_compatible rest (Tensor d sh xs) = (sh \<noteq> [] \<and> tl sh = rest)"
| "cat_compatible rest _ = False"

definition torch_cat :: "'s pyval list \<Rightarrow> error + 's pyval" where
  "torch_cat ts =
     (case ts of
        [] \<Rightarrow> Inl TorchError
      | first # _ \<Rightarrow>
          if \<not> list_all is_tensor ts then Inl TypeError
          else if \<not> list_all (\<lambda>t. device_of t = device_of first) ts then Inl TorchError
          else
            (case filter (\<lambda>t. \<not> empty_1d t) ts of
               [] \<Rightarrow> Inr (Tensor (device_of first) [0] [])
             | u # us \<Rightarrow>
                 if list_all (cat_compatible (tl (case u of Tensor d sh xs \<Rightarrow> sh | _ \<Rightarrow> [])))
                      (u # us)
                 then Inr (Tensor (device_of first)
                             (sum_list (map leading (u # us)) #
                                tl (case u of Tensor d sh xs \<Rightarrow> sh | _ \<Rightarrow> []))
                             (concat (map elements (u # us))))
                 else Inl TorchError))"

text \<open>
  \<^verbatim>\<open>t.tensor(batch, device=device)\<close> on a list of Python values: a scalar is taken as
  it is, a tensor of one element as that element, and nothing else is accepted. The
  scalars are cast to the element type and make a tensor of one axis.
\<close>

fun as_scalar :: "'s pyval \<Rightarrow> 's option" where
  "as_scalar (Scalar x) = Some x"
| "as_scalar (Tensor d sh [x]) = Some x"
| "as_scalar _ = None"

definition torch_tensor :: "'s torch \<Rightarrow> 's pyval list \<Rightarrow> device \<Rightarrow> error + 's pyval" where
  "torch_tensor T batch d =
     (if \<not> available T d then Inl TorchError
      else
        (case those (map as_scalar batch) of
           None \<Rightarrow> Inl TorchError
         | Some xs \<Rightarrow>
             (case those (map (cast T xs) xs) of
                None \<Rightarrow> Inl TorchError
              | Some ys \<Rightarrow> Inr (Tensor d [length ys] ys))))"

text \<open>\<^verbatim>\<open>x.view(n, -1)\<close> needs \<open>n\<close> rows that divide the number of elements.\<close>

fun view_rows :: "'s pyval \<Rightarrow> nat \<Rightarrow> error + 's pyval" where
  "view_rows (Tensor d sh xs) n =
     (if 0 < n \<and> length xs mod n = 0 then Inr (Tensor d [n, length xs div n] xs)
      else Inl TorchError)"
| "view_rows _ n = Inl AttributeError"

definition make_tensor_from_batch ::
    "'s torch \<Rightarrow> 's pyval list \<Rightarrow> device \<Rightarrow> bool \<Rightarrow> error + 's result" where
  "make_tensor_from_batch T batch d concatenate =
     (if length batch = 0 then Inr PyNone
      else if concatenate then
        let item = batch ! 0; batch_size = length batch
        in if is_tensor item then
             (case try_map (tensor_to T d) batch of
                Inl e \<Rightarrow> Inl e
              | Inr batch \<Rightarrow>
                  (case torch_cat batch of
                     Inl e \<Rightarrow> Inl e
                   | Inr t \<Rightarrow> map_sum id Single (tensor_to T d t)))
           else
             (case torch_tensor T batch d of
                Inl e \<Rightarrow> Inl e
              | Inr t \<Rightarrow> map_sum id Single (view_rows t batch_size))
      else Inr (PyList batch))"

text \<open>\<^verbatim>\<open>v[k]\<close> on a value: a dictionary is looked up, nothing else takes a string key.\<close>

fun subscript :: "'s pyval \<Rightarrow> string \<Rightarrow> error + 's pyval" where
  "subscript (Dict kvs) k = (case map_of kvs k of None \<Rightarrow> Inl KeyError | Some v \<Rightarrow> Inr v)"
| "subscript (Tensor d sh xs) k = Inl IndexError"
| "subscript (Scalar x) k = Inl TypeError"

text \<open>\<^verbatim>\<open>[item[attr] for item in batch]\<close>\<close>

definition collect :: "'s transition list \<Rightarrow> string \<Rightarrow> error + 's pyval list" where
  "collect batch attr = try_map (\<lambda>item. getitem item attr) batch"

text \<open>\<^verbatim>\<open>[item[attr][sub_k].to(device) for item in batch]\<close>\<close>

definition collect_major ::
    "'s torch \<Rightarrow> 's transition list \<Rightarrow> string \<Rightarrow> string \<Rightarrow> device \<Rightarrow> error + 's pyval list" where
  "collect_major T batch attr sub_k d =
     try_map (\<lambda>item.
        case getitem item attr of
          Inl e \<Rightarrow> Inl e
        | Inr v \<Rightarrow> (case subscript v sub_k of Inl e \<Rightarrow> Inl e | Inr w \<Rightarrow> tensor_to T d w)) batch"

text \<open>\<^verbatim>\<open>d.keys()\<close> of a value: only a dictionary has keys.\<close>

fun dict_keys :: "'s pyval \<Rightarrow> error + string list" where
  "dict_keys (Dict kvs) = Inr (map fst kvs)"
| "dict_keys _ = Inl AttributeError"

text \<open>The branch of a major attribute: \<^verbatim>\<open>tmp_dict\<close>, one stacked value per sub-key.\<close>

definition resolve_major ::
    "'s torch \<Rightarrow> 's transition list \<Rightarrow> device \<Rightarrow> bool \<Rightarrow> string \<Rightarrow> error + 's result" where
  "resolve_major T batch d concatenate attr =
     (case getitem (batch ! 0) attr of
        Inl e \<Rightarrow> Inl e
      | Inr v \<Rightarrow>
          (case dict_keys v of
             Inl e \<Rightarrow> Inl e
           | Inr ks \<Rightarrow>
               map_sum id PyDict
                 (try_map (\<lambda>sub_k.
                    case collect_major T batch attr sub_k d of
                      Inl e \<Rightarrow> Inl e
                    | Inr vs \<Rightarrow>
                        map_sum id (Pair sub_k) (make_tensor_from_batch T vs d concatenate))
                  ks)))"

text \<open>The branches of a sub attribute and of a named custom attribute.\<close>

definition resolve_plain ::
    "'s torch \<Rightarrow> 's transition list \<Rightarrow> device \<Rightarrow> bool \<Rightarrow> string \<Rightarrow> error + 's result" where
  "resolve_plain T batch d concatenate attr =
     (case collect batch attr of
        Inl e \<Rightarrow> Inl e
      | Inr vs \<Rightarrow> make_tensor_from_batch T vs d concatenate)"

text \<open>
  The loop over \<^verbatim>\<open>sample_attrs\<close>, with \<^verbatim>\<open>result\<close> and \<^verbatim>\<open>used_keys\<close> as they grow. In
  the wildcard branch \<^verbatim>\<open>attr\<close> is the string "*" and the loop variable is
  \<^verbatim>\<open>remain_k\<close>; the concatenation flag is
  \<^verbatim>\<open>concatenate and attr in additional_concat_attrs\<close>.
\<close>

fun process_attrs ::
    "'s torch \<Rightarrow> 's transition list \<Rightarrow> device \<Rightarrow> bool \<Rightarrow> string list \<Rightarrow> string list \<Rightarrow>
     's result list \<Rightarrow> string list \<Rightarrow> error + 's result list" where
  "process_attrs T batch d concatenate additional_concat_attrs [] result used_keys = Inr result"
| "process_attrs T batch d concatenate additional_concat_attrs (attr # attrs) result used_keys =
     (if attr \<in> set (major_attr (batch ! 0)) then
        (case resolve_major T batch d concatenate attr of
           Inl e \<Rightarrow> Inl e
         | Inr tmp_dict \<Rightarrow>
             process_attrs T batch d concatenate additional_concat_attrs attrs
               (result @ [tmp_dict]) (used_keys @ [attr]))
      else if attr \<in> set (sub_attr (batch ! 0)) then
        (case resolve_plain T batch d concatenate attr of
           Inl e \<Rightarrow> Inl e
         | Inr r \<Rightarrow>
             process_attrs T batch d concatenate additional_concat_attrs attrs
               (result @ [r]) (used_keys @ [attr]))
      else if attr = ''*'' then
        (case try_map (\<lambda>remain_k.
                 resolve_plain T batch d
                   (concatenate \<and> attr \<in> set additional_concat_attrs) remain_k)
                (filter (\<lambda>remain_k. remain_k \<notin> set (major_attr (batch ! 0)) \<and>
                                     remain_k \<notin> set (sub_attr (batch ! 0)) \<and>
                                     remain_k \<notin> set used_keys)
                   (keys (batch ! 0))) of
           Inl e \<Rightarrow> Inl e
         | Inr rs \<Rightarrow>
             process_attrs T batch d concatenate additional_concat_attrs attrs
               (result @ rs) used_keys)
      else
        (case resolve_plain T batch d
                (concatenate \<and> attr \<in> set additional_concat_attrs) attr of
           Inl e \<Rightarrow> Inl e
         | Inr r \<Rightarrow>
             process_attrs T batch d concatenate additional_concat_attrs attrs
               (result @ [r]) (used_keys @ [attr])))"

definition post_process_batch ::
    "'s torch \<Rightarrow> 's transition list \<Rightarrow> device \<Rightarrow> bool \<Rightarrow> string list \<Rightarrow> string list \<Rightarrow>
     error + 's result list" where
  "post_process_batch T batch d concatenate sample_attrs additional_concat_attrs =
     (if length batch = 0 then Inr (replicate (length sample_attrs) PyNone)
      else process_attrs T batch d concatenate additional_concat_attrs sample_attrs [] [])"

text \<open>
  \<^verbatim>\<open>sample_batch\<close>. The optional arguments \<^verbatim>\<open>device\<close>, \<^verbatim>\<open>sample_attrs\<close> and
  \<^verbatim>\<open>additional_concat_attrs\<close> default to \<^verbatim>\<open>None\<close>; \<^verbatim>\<open>batch[0]\<close> of an empty batch
  raises.
\<close>

definition sample_batch ::
    "'s torch \<Rightarrow> rng \<Rightarrow> 's Buffer \<Rightarrow> int \<Rightarrow> bool \<Rightarrow> device option \<Rightarrow> 's sample_method \<Rightarrow>
     string list option \<Rightarrow> string list option \<Rightarrow> error + (int \<times> 's result list)" where
  "sample_batch T rng self batch_size concatenate device sample_method sample_attrs
       additional_concat_attrs =
     (case (case sample_method of
              Name s \<Rightarrow>
                (case getattr_sample_method rng (''sample_method_'' @ s) of
                   None \<Rightarrow> Inl (RuntimeError_cannot_find_sample_method s)
                 | Some f \<Rightarrow> Inr f)
            | Func f \<Rightarrow> Inr f) of
        Inl e \<Rightarrow> Inl e
      | Inr sample_method \<Rightarrow>
          (case sample_method (buffer self) batch_size of
             Inl e \<Rightarrow> Inl e
           | Inr (batch, batch_size) \<Rightarrow>
              (let device = (case device of None \<Rightarrow> buffer_device self | Some d \<Rightarrow> d)
               in (case (case sample_attrs of
                           None \<Rightarrow> map_sum id keys (py_getitem batch 0)
                         | Some attrs \<Rightarrow> Inr attrs) of
                     Inl e \<Rightarrow> Inl e
                   | Inr sample_attrs \<Rightarrow>
                      (let additional_concat_attrs =
                             (case additional_concat_attrs of None \<Rightarrow> [] | Some attrs \<Rightarrow> attrs)
                       in map_sum id (Pair batch_size)
                            (post_process_batch T batch device concatenate sample_attrs
                               additional_concat_attrs))))))"

section \<open>Scenarios\<close>

text \<open>The default of \<^verbatim>\<open>required_attrs\<close>.\<close>

definition default_required_attrs :: "string list" where
  "default_required_attrs = [''state'', ''action'', ''next_state'', ''reward'', ''terminal'']"

text \<open>
  A record of the minimal schema, as the callers build it: the three major attributes
  hold one tensor of shape \<open>(1, 1)\<close> each, reward and terminal are scalars.
\<close>

definition minimal_record :: "device \<Rightarrow> 's \<Rightarrow> 's \<Rightarrow> 's \<Rightarrow> 's \<Rightarrow> 's \<Rightarrow> 's transition" where
  "minimal_record d s a s' r term =
     \<lparr> major = [(''state'', [(''state'', Tensor d [1, 1] [s])]),
                (''action'', [(''action'', Tensor d [1, 1] [a])]),
                (''next_state'', [(''state'', Tensor d [1, 1] [s'])])],
       sub = [(''reward'', Scalar r), (''terminal'', Scalar term)],
       custom = [] \<rparr>"

text \<open>A record whose only attribute is the scalar sub attribute "reward".\<close>

definition reward_record :: "'s \<Rightarrow> 's transition" where
  "reward_record r = \<lparr> major = [], sub = [(''reward'', Scalar r)], custom = [] \<rparr>"

text \<open>
  One behaviour of torch, for stores whose scalars are Python ints, on a machine with a
  GPU: the devices "cpu" and "cuda" are accepted, a list of ints makes a tensor of 64-bit
  integers, and an int outside their range makes \<^verbatim>\<open>t.tensor\<close> raise.
\<close>

definition int64_torch :: "int torch" where
  "int64_torch =
     \<lparr> available = (\<lambda>d. d = ''cpu'' \<or> d = ''cuda''),
       cast = (\<lambda>xs x. if - (2 ^ 63) \<le> x \<and> x < 2 ^ 63 then Some x else None) \<rparr>"

text \<open>The store after a sequence of \<^verbatim>\<open>append\<close> calls, whatever each returned or raised.\<close>

fun store_after :: "'s Buffer \<Rightarrow> 's transition list \<Rightarrow> string list \<Rightarrow> 's Buffer" where
  "store_after self [] required_attrs = self"
| "store_after self (transition # rest) required_attrs =
     store_after (fst (snd (append_buffer self transition required_attrs))) rest required_attrs"

section \<open>Auxiliary facts\<close>

lemma keys_to: "keys (to d tr) = keys tr"
  by (simp add: keys_def to_def major_attr_def sub_attr_def comp_def)

lemma on_device_relocate: "on_device d (relocate d v)"
  by (induction v) (auto simp: list_all_iff)

lemma all_on_device_to: "all_on_device d (to d tr)"
  by (auto simp: all_on_device_def to_def list_all_iff on_device_relocate)

lemma try_map_Inr:
  "(\<And>x. x \<in> set xs \<Longrightarrow> f x = Inr (g x)) \<Longrightarrow> try_map f xs = Inr (map g xs)"
  by (induction xs) simp_all

lemma try_map_map_Inr:
  "(\<And>x. x \<in> set xs \<Longrightarrow> f (h x) = Inr (g x)) \<Longrightarrow> try_map f (map h xs) = Inr (map g xs)"
  by (induction xs) simp_all

lemma try_map_nonempty_Inl:
  "xs \<noteq> [] \<Longrightarrow> (\<And>x. f x = Inl e) \<Longrightarrow> try_map f xs = Inl e"
  by (cases xs) simp_all

lemma length_sample_pool: "length (sample_pool rng pool k) = k"
  by (induction k arbitrary: rng pool) (simp_all add: Let_def)

lemma pool_pick:
  assumes "j < length pool"
  shows "add_mset (pool ! j) (mset (butlast (pool[j := last pool]))) = mset pool"
proof (cases pool rule: rev_cases)
  case Nil
  with assms show ?thesis by simp
next
  case (snoc ys l)
  show ?thesis
  proof (cases "j < length ys")
    case True
    then have "add_mset (ys ! j) (mset (ys[j := l])) = add_mset l (mset ys)"
      by (simp add: mset_update)
    with True snoc show ?thesis
      by (simp add: list_update_append nth_append)
  next
    case False
    with assms snoc have "j = length ys" by simp
    with snoc show ?thesis by simp
  qed
qed

lemma mset_sample_pool_subset:
  "k \<le> length pool \<Longrightarrow> mset (sample_pool rng pool k) \<subseteq># mset pool"
proof (induction k arbitrary: rng pool)
  case 0
  then show ?case by simp
next
  case (Suc k)
  let ?j = "rng 0 mod length pool"
  let ?rest = "butlast (pool[?j := last pool])"
  from Suc.prems have "0 < length pool" by (cases pool) simp_all
  then have j: "?j < length pool" by simp
  from Suc.prems have "k \<le> length ?rest" by simp
  then have "mset (sample_pool (\<lambda>i. rng (Suc i)) ?rest k) \<subseteq># mset ?rest"
    by (rule Suc.IH)
  then have "add_mset (pool ! ?j) (mset (sample_pool (\<lambda>i. rng (Suc i)) ?rest k))
               \<subseteq># add_mset (pool ! ?j) (mset ?rest)"
    by simp
  with pool_pick [OF j] show ?case by (simp add: Let_def)
qed

lemma mset_sample_pool_all: "mset (sample_pool rng pool (length pool)) = mset pool"
proof (rule ccontr)
  assume "mset (sample_pool rng pool (length pool)) \<noteq> mset pool"
  then have "mset (sample_pool rng pool (length pool)) \<subset># mset pool"
    by (simp add: mset_sample_pool_subset subset_mset.less_le)
  then have "size (mset (sample_pool rng pool (length pool))) < size (mset pool)"
    by (rule mset_subset_size)
  then show False by (simp add: length_sample_pool)
qed

lemma random_sample_ok:
  assumes "0 \<le> k" "k \<le> int (length pool)"
  shows "random_sample rng pool k = Inr (sample_pool rng pool (nat k))"
  using assms by (simp add: random_sample_def)

lemma sample_method_random_ok:
  assumes "buf \<noteq> []"
  shows "sample_method_random rng buf batch_size =
           Inr (map (\<lambda>i. buf ! (rng i mod length buf)) [0..<nat batch_size], batch_size)"
proof -
  let ?n = "length buf"
  from assms have n: "0 < ?n" by simp
  have draw: "try_map (\<lambda>i. random_randint (rng i) 0 (int ?n - 1)) [0..<nat batch_size] =
                Inr (map (\<lambda>i. int (rng i mod ?n)) [0..<nat batch_size])"
    using n by (intro try_map_Inr) (simp add: random_randint_def)
  have pick: "try_map (py_getitem buf) (map (\<lambda>i. int (rng i mod ?n)) [0..<nat batch_size]) =
                Inr (map (\<lambda>j. buf ! nat j) (map (\<lambda>i. int (rng i mod ?n)) [0..<nat batch_size]))"
    using n by (intro try_map_Inr) (auto simp: py_getitem_def py_index_def Let_def)
  show ?thesis
    by (simp add: sample_method_random_def draw pick comp_def)
qed

lemma sample_method_random_empty:
  assumes "0 < batch_size"
  shows "sample_method_random rng [] batch_size = Inl ValueError_empty_range"
proof -
  from assms have "[0..<nat batch_size] \<noteq> []" by simp
  then have "try_map (\<lambda>i. random_randint (rng i) 0 (int (length []) - 1))
               [0..<nat batch_size] = Inl ValueError_empty_range"
    by (rule try_map_nonempty_Inl) (simp add: random_randint_def)
  then show ?thesis by (simp add: sample_method_random_def)
qed

text \<open>The two schema errors of \<^verbatim>\<open>append\<close>, when each is raised, and the two ways of admission.\<close>

lemma append_missing:
  "\<not> has_keys tr req \<Longrightarrow>
   append_buffer self tr req =
     (Inl (ValueError_missing_attributes (set req - set (keys tr))), self, tr)"
  by (simp add: append_buffer_def)

lemma append_different:
  "has_keys tr req \<Longrightarrow> size_buffer self \<noteq> 0 \<Longrightarrow> keys (buffer self ! 0) \<noteq> keys tr \<Longrightarrow>
   append_buffer self tr req =
     (Inl ValueError_different_attributes, self, to (buffer_device self) tr)"
  by (simp add: append_buffer_def Let_def keys_to)

lemma append_schema_error_iff:
  "(\<exists>ks. fst (append_buffer self tr req) = Inl (ValueError_missing_attributes ks)) =
     (\<not> has_keys tr req)"
  "(fst (append_buffer self tr req) = Inl ValueError_different_attributes) =
     (has_keys tr req \<and> size_buffer self \<noteq> 0 \<and> keys (buffer self ! 0) \<noteq> keys tr)"
  by (auto simp: append_buffer_def Let_def keys_to py_setitem_def py_index_def split: if_splits sum.splits)

lemma has_keys_subset: "has_keys tr req \<Longrightarrow> set req \<subseteq> set (keys tr)"
  by (auto simp: has_keys_def keys_def)

lemma keys_differ:
  assumes "map fst (custom tr) = map fst (custom tr0)"
    and "set (major_attr tr) \<union> set (sub_attr tr) \<noteq> set (major_attr tr0) \<union> set (sub_attr tr0)"
  shows "keys tr0 \<noteq> keys tr"
proof
  assume "keys tr0 = keys tr"
  with assms(1) have "major_attr tr0 @ sub_attr tr0 = major_attr tr @ sub_attr tr"
    by (simp add: keys_def flip: append_assoc)
  then have "set (major_attr tr0 @ sub_attr tr0) = set (major_attr tr @ sub_attr tr)"
    by simp
  with assms(2) show False by simp
qed

lemma append_to_room:
  assumes "has_keys tr req" and "buffer self = [] \<or> keys (buffer self ! 0) = keys tr"
    and "int (length (buffer self)) < buffer_size self"
  shows "append_buffer self tr req =
           (Inr (int (length (buffer self))),
            self\<lparr>buffer := buffer self @ [to (buffer_device self) tr]\<rparr>,
            to (buffer_device self) tr)"
  using assms by (auto simp: append_buffer_def size_buffer_def keys_to Let_def)

lemma append_to_full:
  assumes "has_keys tr req" and "keys (buffer self ! 0) = keys tr"
    and "int (length (buffer self)) = buffer_size self"
    and "0 \<le> index self" and "index self < buffer_size self"
  shows "append_buffer self tr req =
           (Inr (index self),
            self\<lparr>buffer := (buffer self)[nat (index self) := to (buffer_device self) tr],
                 index := (index self + 1) mod buffer_size self\<rparr>,
            to (buffer_device self) tr)"
  using assms
  by (auto simp: append_buffer_def size_buffer_def keys_to Let_def py_setitem_def py_index_def)

text \<open>Records of the minimal schema, and stores filled with them.\<close>

lemma to_minimal_record: "to d (minimal_record d0 s a s' r term) = minimal_record d s a s' r term"
  by (simp add: to_def minimal_record_def)

lemma has_keys_minimal_record: "has_keys (minimal_record d s a s' r term) default_required_attrs"
  by (simp add: has_keys_def minimal_record_def default_required_attrs_def major_attr_def
        sub_attr_def)

lemma keys_minimal_record:
  "keys (minimal_record d s a s' r term) = default_required_attrs"
  by (simp add: keys_def minimal_record_def default_required_attrs_def major_attr_def
        sub_attr_def)

lemma three_appends:
  "store_after (init 2 d)
     [minimal_record d1 s1 a1 n1 r1 t1, minimal_record d2 s2 a2 n2 r2 t2,
      minimal_record d3 s3 a3 n3 r3 t3] default_required_attrs =
   \<lparr> buffer_size = 2, buffer_device = d,
     buffer = [minimal_record d s3 a3 n3 r3 t3, minimal_record d s2 a2 n2 r2 t2],
     index = 1 \<rparr>"
  by (simp add: append_buffer_def init_def size_buffer_def has_keys_minimal_record
        to_minimal_record keys_minimal_record py_setitem_def py_index_def Let_def)

lemma three_notes:
  "store_after (init 5 d)
     [(minimal_record dA sA aA nA rA tA)\<lparr>custom := [(''note'', Scalar xA)]\<rparr>,
      (minimal_record dB sB aB nB rB tB)\<lparr>custom := [(''note'', Scalar xB)]\<rparr>]
     default_required_attrs =
   \<lparr> buffer_size = 5, buffer_device = d,
     buffer = [(minimal_record d sA aA nA rA tA)\<lparr>custom := [(''note'', Scalar xA)]\<rparr>,
               (minimal_record d sB aB nB rB tB)\<lparr>custom := [(''note'', Scalar xB)]\<rparr>],
     index = 0 \<rparr>"
  by (simp add: append_buffer_def init_def size_buffer_def has_keys_def to_def keys_def
        major_attr_def sub_attr_def minimal_record_def default_required_attrs_def Let_def)

lemma sample_all_two:
  assumes "available T d"
    and "cast T [r3, r2] r3 = Some cr3" and "cast T [r3, r2] r2 = Some cr2"
    and "cast T [t3, t2] t3 = Some ct3" and "cast T [t3, t2] t2 = Some ct2"
  shows "sample_batch T rng
     \<lparr> buffer_size = 2, buffer_device = d,
       buffer = [minimal_record d s3 a3 n3 r3 t3, minimal_record d s2 a2 n2 r2 t2],
       index = 1 \<rparr> 2 True None (Name ''all'') None None =
   Inr (2, [PyDict [(''state'', Single (Tensor d [2, 1] [s3, s2]))],
            PyDict [(''action'', Single (Tensor d [2, 1] [a3, a2]))],
            PyDict [(''state'', Single (Tensor d [2, 1] [n3, n2]))],
            Single (Tensor d [2, 1] [cr3, cr2]),
            Single (Tensor d [2, 1] [ct3, ct2])])"
  using assms
  by (simp add: sample_batch_def getattr_sample_method_def sample_method_all_def
        py_getitem_def py_index_def post_process_batch_def
        major_attr_def sub_attr_def minimal_record_def resolve_major_def resolve_plain_def
        getitem_def collect_major_def collect_def make_tensor_from_batch_def torch_tensor_def
        torch_cat_def keys_def Let_def)

lemma sample_raw_rewards:
  "sample_batch T rng
     \<lparr> buffer_size = 2, buffer_device = d,
       buffer = [minimal_record d s3 a3 n3 r3 t3, minimal_record d s2 a2 n2 r2 t2],
       index = 1 \<rparr> 2 False None (Name ''all'') (Some [''reward'']) None =
   Inr (2, [PyList [Scalar r3, Scalar r2]])"
  by (simp add: sample_batch_def getattr_sample_method_def sample_method_all_def
        post_process_batch_def major_attr_def sub_attr_def minimal_record_def
        resolve_plain_def getitem_def collect_def make_tensor_from_batch_def)

text \<open>Stacking scalars, and records whose only sub attribute is a scalar reward.\<close>

lemma those_map_Some: "those (map Some xs) = Some xs"
  by (induction xs) simp_all

lemma those_exact:
  assumes "\<And>x. x \<in> set xs \<Longrightarrow> f x = Some x"
  shows "those (map f xs) = Some xs"
  using assms by (induction xs) simp_all

lemma as_scalar_map_Scalar: "those (map (as_scalar \<circ> Scalar) xs) = Some xs"
  by (induction xs) simp_all

lemma length_those: "those xs = Some ys \<Longrightarrow> length ys = length xs"
  by (induction xs arbitrary: ys) (auto split: option.splits)

lemma nth_those: "those xs = Some ys \<Longrightarrow> i < length xs \<Longrightarrow> xs ! i = Some (ys ! i)"
proof (induction xs arbitrary: ys i)
  case Nil
  then show ?case by simp
next
  case (Cons x xs)
  then show ?case by (cases i) (auto split: option.splits)
qed

lemma stack_scalars:
  assumes "xs \<noteq> []" and "available T d" and "those (map (cast T xs) xs) = Some ys"
  shows "make_tensor_from_batch T (map Scalar xs) d True =
           Inr (Single (Tensor d [length xs, 1] ys))"
proof -
  from assms(1) obtain z zs where "xs = z # zs" by (cases xs) auto
  then have "\<not> is_tensor (map Scalar xs ! 0)" by simp
  moreover from assms(3) have "length ys = length xs" by (simp add: length_those)
  ultimately show ?thesis
    using assms
    by (simp add: make_tensor_from_batch_def torch_tensor_def as_scalar_map_Scalar)
qed

lemma stack_scalars_fails:
  assumes "xs \<noteq> []" and "\<not> available T d \<or> those (map (cast T xs) xs) = None"
  shows "make_tensor_from_batch T (map Scalar xs) d True = Inl TorchError"
proof -
  from assms(1) obtain z zs where "xs = z # zs" by (cases xs) auto
  then have "\<not> is_tensor (map Scalar xs ! 0)" by simp
  then show ?thesis
    using assms
    by (auto simp: make_tensor_from_batch_def torch_tensor_def as_scalar_map_Scalar)
qed

lemma collect_sole_reward:
  assumes "list_all2 (\<lambda>tr r. sub tr = [(''reward'', Scalar r)] \<and>
                           ''reward'' \<notin> set (major_attr tr)) batch rs"
  shows "collect batch ''reward'' = Inr (map Scalar rs)"
  using assms unfolding collect_def
proof (induction batch rs rule: list_all2_induct)
  case Nil
  then show ?case by simp
next
  case (Cons tr batch r rs)
  from Cons.hyps(1) have "map_of (major tr) ''reward'' = None"
    by (simp add: major_attr_def map_of_eq_None_iff)
  with Cons.hyps(1) have "getitem tr ''reward'' = Inr (Scalar r)"
    by (simp add: getitem_def)
  with Cons.IH show ?case by simp
qed

lemma sample_sole_reward:
  assumes rs: "rs \<noteq> []"
    and recs: "list_all2 (\<lambda>tr r. sub tr = [(''reward'', Scalar r)] \<and>
                               ''reward'' \<notin> set (major_attr tr)) (buffer self) rs"
    and attrs: "sample_attrs = Some [''reward''] \<or>
                sample_attrs = None \<and> keys (buffer self ! 0) = [''reward'']"
    and dev: "dev = (case device of None \<Rightarrow> buffer_device self | Some d' \<Rightarrow> d')"
    and ok: "available T dev" "those (map (cast T rs) rs) = Some cs"
  shows "sample_batch T rng self batch_size True device (Name ''all'') sample_attrs
           additional = Inr (int (length rs), [Single (Tensor dev [length rs, 1] cs)])"
proof -
  from recs have len: "length (buffer self) = length rs"
    by (rule list_all2_lengthD)
  with rs have ne: "buffer self \<noteq> []" by auto
  from recs rs len have first: "sub (buffer self ! 0) = [(''reward'', Scalar (rs ! 0))]"
      "''reward'' \<notin> set (major_attr (buffer self ! 0))"
    by (auto simp: list_all2_conv_all_nth)
  then have sub0: "sub_attr (buffer self ! 0) = [''reward'']"
    by (simp add: sub_attr_def)
  have post: "post_process_batch T (buffer self) dev True [''reward''] al =
      Inr [Single (Tensor dev [length rs, 1] cs)]" for al
    using ne first(2) sub0 rs ok
    by (simp add: post_process_batch_def resolve_plain_def collect_sole_reward [OF recs]
          stack_scalars)
  from ne have get0: "py_getitem (buffer self) 0 = Inr (buffer self ! 0)"
    by (simp add: py_getitem_def py_index_def)
  from attrs show ?thesis
    by (auto simp: sample_batch_def getattr_sample_method_def sample_method_all_def
          get0 post len simp flip: dev)
qed

section \<open>Sampling from an empty store\<close>

text \<open>
  Claim C1. For a store whose item list is empty, \<^verbatim>\<open>sample_batch\<close> under
  \<^verbatim>\<open>random_unique\<close> or \<^verbatim>\<open>all\<close> should return the realized size 0 and one
  \<^verbatim>\<open>None\<close> per requested attribute, also when no attribute list is passed. The code
  does so when a list is passed. When none is passed it reads \<^verbatim>\<open>batch[0].keys()\<close>
  of the empty batch before \<^verbatim>\<open>post_process_batch\<close> can test for emptiness, and the
  call raises \<^verbatim>\<open>IndexError\<close>.
\<close>

theorem sample_batch_empty_default_attrs:
  assumes "buffer self = []" and "0 \<le> batch_size"
  shows "sample_batch T rng self batch_size concatenate device (Name ''random_unique'') None
           additional = Inl IndexError \<and>
         sample_batch T rng self batch_size concatenate device (Name ''all'') None
           additional = Inl IndexError \<and>
         sample_batch T rng self batch_size concatenate device (Name ''random_unique'')
           (Some attrs) additional = Inr (0, replicate (length attrs) PyNone) \<and>
         sample_batch T rng self batch_size concatenate device (Name ''all'')
           (Some attrs) additional = Inr (0, replicate (length attrs) PyNone)"
  using assms
  by (simp add: sample_batch_def getattr_sample_method_def sample_method_random_unique_def
        sample_method_all_def random_sample_def py_getitem_def py_index_def
        post_process_batch_def)

text \<open>The call of the spec's scenario, \<^verbatim>\<open>sample_batch(5, sample_method="random_unique")\<close>.\<close>

theorem sample_batch_empty_default_attrs_witness:
  "buffer (init 2 ''cpu'' :: int Buffer) = [] \<and> (0::int) \<le> 5 \<and>
   sample_batch int64_torch id (init 2 ''cpu'') 5 True None (Name ''random_unique'') None None =
     Inl IndexError \<and>
   sample_batch int64_torch id (init 2 ''cpu'') 5 True None (Name ''random_unique'')
     (Some [''state'', ''reward'']) None = Inr (0, [PyNone, PyNone])"
proof -
  have h: "buffer (init 2 ''cpu'' :: int Buffer) = []" and k: "(0::int) \<le> 5"
    by (simp_all add: init_def)
  from sample_batch_empty_default_attrs [OF h k, of int64_torch id True None None
      "[''state'', ''reward'']"] h
  show ?thesis by (simp add: numeral_2_eq_2)
qed

section \<open>Ring overwrite\<close>

text \<open>
  Claim C2, as amended. A store of capacity 2 with the five default required attributes
  receives three records R1, R2, R3 of the minimal schema in that order. Then
  \<^verbatim>\<open>size()\<close> is 2, R3 is at slot 0 (it overwrote R1, the cursor being 0 when the store
  filled up), R2 is at slot 1 and the cursor is 1. The strategy \<^verbatim>\<open>all\<close> returns R3 then
  R2 and the realized size 2; without concatenation the sampled rewards are those of R3
  then R2; and \<^verbatim>\<open>sample_batch(2, sample_method="all")\<close> returns the realized size 2
  with the values of R3 then R2, the rewards among them, stacked as torch holds them
  when it accepts the store's device and the scalars.
\<close>

theorem ring_overwrite_scenario:
  assumes "self = store_after (init 2 d)
             [minimal_record d1 s1 a1 n1 r1 t1, minimal_record d2 s2 a2 n2 r2 t2,
              minimal_record d3 s3 a3 n3 r3 t3] default_required_attrs"
  shows "size_buffer self = 2 \<and>
         buffer self ! 0 = minimal_record d s3 a3 n3 r3 t3 \<and>
         buffer self ! 1 = minimal_record d s2 a2 n2 r2 t2 \<and>
         index self = 1 \<and>
         sample_method_all (buffer self) 2 =
           Inr ([minimal_record d s3 a3 n3 r3 t3, minimal_record d s2 a2 n2 r2 t2], 2) \<and>
         sample_batch T rng self 2 False None (Name ''all'') (Some [''reward'']) None =
           Inr (2, [PyList [Scalar r3, Scalar r2]]) \<and>
         (available T d \<and>
          cast T [r3, r2] r3 = Some cr3 \<and> cast T [r3, r2] r2 = Some cr2 \<and>
          cast T [t3, t2] t3 = Some ct3 \<and> cast T [t3, t2] t2 = Some ct2 \<longrightarrow>
          sample_batch T rng self 2 True None (Name ''all'') None None =
            Inr (2, [PyDict [(''state'', Single (Tensor d [2, 1] [s3, s2]))],
                     PyDict [(''action'', Single (Tensor d [2, 1] [a3, a2]))],
                     PyDict [(''state'', Single (Tensor d [2, 1] [n3, n2]))],
                     Single (Tensor d [2, 1] [cr3, cr2]),
                     Single (Tensor d [2, 1] [ct3, ct2])]))"
  unfolding assms three_appends
  by (simp add: sample_all_two sample_raw_rewards size_buffer_def sample_method_all_def)

theorem ring_overwrite_scenario_witness:
  "size_buffer (store_after (init 2 ''cpu'')
       [minimal_record ''cpu'' 10 11 12 (1::int) 0, minimal_record ''cpu'' 20 21 22 2 0,
        minimal_record ''cpu'' 30 31 32 3 1] default_required_attrs) = 2 \<and>
   available int64_torch ''cpu'' \<and>
   cast int64_torch [3, 2] 3 = Some 3 \<and> cast int64_torch [3, 2] 2 = Some 2 \<and>
   cast int64_torch [1, 0] 1 = Some 1 \<and> cast int64_torch [1, 0] 0 = Some 0 \<and>
   sample_batch int64_torch id (store_after (init 2 ''cpu'')
       [minimal_record ''cpu'' 10 11 12 (1::int) 0, minimal_record ''cpu'' 20 21 22 2 0,
        minimal_record ''cpu'' 30 31 32 3 1] default_required_attrs)
     2 True None (Name ''all'') None None =
     Inr (2, [PyDict [(''state'', Single (Tensor ''cpu'' [2, 1] [30, 20]))],
              PyDict [(''action'', Single (Tensor ''cpu'' [2, 1] [31, 21]))],
              PyDict [(''state'', Single (Tensor ''cpu'' [2, 1] [32, 22]))],
              Single (Tensor ''cpu'' [2, 1] [3, 2]),
              Single (Tensor ''cpu'' [2, 1] [1, 0])])"
proof -
  have h: "available int64_torch ''cpu'' \<and>
      cast int64_torch [3, 2] 3 = Some 3 \<and> cast int64_torch [3, 2] 2 = Some 2 \<and>
      cast int64_torch [1, 0] 1 = Some 1 \<and> cast int64_torch [1, 0] 0 = Some 0"
    by (simp add: int64_torch_def)
  from h ring_overwrite_scenario [OF refl, where T = int64_torch and rng = id and
      d = "''cpu''" and ?d1.0 = "''cpu''" and ?s1.0 = 10 and ?a1.0 = 11 and ?n1.0 = 12 and
      ?r1.0 = 1 and ?t1.0 = 0 and ?d2.0 = "''cpu''" and ?s2.0 = 20 and ?a2.0 = 21 and
      ?n2.0 = 22 and ?r2.0 = 2 and ?t2.0 = 0 and ?d3.0 = "''cpu''" and ?s3.0 = 30 and
      ?a3.0 = 31 and ?n3.0 = 32 and ?r3.0 = 3 and ?t3.0 = 1 and ?cr3.0 = 3 and
      ?cr2.0 = 2 and ?ct3.0 = 1 and ?ct2.0 = 0]
  show ?thesis by simp
qed

text \<open>
  Claim C2 as stated has R2 at slot 0 and R3 at slot 1, and the rewards in that order.
  With rewards 1, 2, 3 the store holds R3 then R2, which differ, and the sampled rewards
  are 3 then 2.
\<close>

theorem ring_overwrite_order_counterexample:
  "buffer (store_after (init 2 ''cpu'')
       [minimal_record ''cpu'' 10 11 12 (1::int) 0, minimal_record ''cpu'' 20 21 22 2 0,
        minimal_record ''cpu'' 30 31 32 3 1] default_required_attrs) =
     [minimal_record ''cpu'' 30 31 32 3 1, minimal_record ''cpu'' 20 21 22 2 0] \<and>
   minimal_record ''cpu'' 30 31 32 (3::int) 1 \<noteq> minimal_record ''cpu'' 20 21 22 2 0 \<and>
   sample_batch int64_torch id (store_after (init 2 ''cpu'')
       [minimal_record ''cpu'' 10 11 12 (1::int) 0, minimal_record ''cpu'' 20 21 22 2 0,
        minimal_record ''cpu'' 30 31 32 3 1] default_required_attrs)
     2 True None (Name ''all'') (Some [''reward'']) None =
     Inr (2, [Single (Tensor ''cpu'' [2, 1] [3, 2])])"
  by code_simp

section \<open>The wildcard\<close>

text \<open>
  Claim C3. With "*" among the requested attributes, every custom attribute of the first
  sampled record is resolved by the stacking rule, and should be concatenated exactly
  when its own name is listed in \<^verbatim>\<open>additional_concat_attrs\<close>. The code tests
  \<^verbatim>\<open>attr\<close>, which is "*" in that branch, instead of \<^verbatim>\<open>remain_k\<close>: with two records
  that carry the scalar custom attribute "note", requesting "*" with "note" listed gives
  the plain list of the two values, whatever torch does. Where torch stacks the two
  values, requesting "note" by name gives the stacked tensor, and so does the wildcard
  when "*" itself is listed.
\<close>

theorem wildcard_concatenation_flag:
  assumes "self = store_after (init 5 d)
             [(minimal_record dA sA aA nA rA tA)\<lparr>custom := [(''note'', Scalar xA)]\<rparr>,
              (minimal_record dB sB aB nB rB tB)\<lparr>custom := [(''note'', Scalar xB)]\<rparr>]
             default_required_attrs"
  shows "sample_batch T rng self 2 True None (Name ''all'') (Some [''*'']) (Some [''note'']) =
           Inr (2, [PyList [Scalar xA, Scalar xB]]) \<and>
         (available T d \<and> cast T [xA, xB] xA = Some cA \<and> cast T [xA, xB] xB = Some cB \<longrightarrow>
          sample_batch T rng self 2 True None (Name ''all'') (Some [''note'']) (Some [''note'']) =
            Inr (2, [Single (Tensor d [2, 1] [cA, cB])]) \<and>
          sample_batch T rng self 2 True None (Name ''all'') (Some [''*'']) (Some [''*'']) =
            Inr (2, [Single (Tensor d [2, 1] [cA, cB])]))"
  unfolding assms three_notes
  by (simp add: sample_batch_def getattr_sample_method_def sample_method_all_def
        post_process_batch_def major_attr_def sub_attr_def minimal_record_def resolve_plain_def
        getitem_def collect_def make_tensor_from_batch_def torch_tensor_def keys_def Let_def)

theorem wildcard_concatenation_flag_witness:
  "sample_batch int64_torch id
     (store_after (init 5 ''cpu'')
        [(minimal_record ''cpu'' 10 11 12 (1::int) 0)\<lparr>custom := [(''note'', Scalar 7)]\<rparr>,
         (minimal_record ''cpu'' 20 21 22 2 0)\<lparr>custom := [(''note'', Scalar 8)]\<rparr>]
        default_required_attrs)
     2 True None (Name ''all'') (Some [''*'']) (Some [''note'']) =
     Inr (2, [PyList [Scalar 7, Scalar 8]]) \<and>
   available int64_torch ''cpu'' \<and>
   cast int64_torch [7, 8] 7 = Some 7 \<and> cast int64_torch [7, 8] 8 = Some 8 \<and>
   sample_batch int64_torch id
     (store_after (init 5 ''cpu'')
        [(minimal_record ''cpu'' 10 11 12 (1::int) 0)\<lparr>custom := [(''note'', Scalar 7)]\<rparr>,
         (minimal_record ''cpu'' 20 21 22 2 0)\<lparr>custom := [(''note'', Scalar 8)]\<rparr>]
        default_required_attrs)
     2 True None (Name ''all'') (Some [''note'']) (Some [''note'']) =
     Inr (2, [Single (Tensor ''cpu'' [2, 1] [7, 8])])"
proof -
  have h: "available int64_torch ''cpu'' \<and>
      cast int64_torch [7, 8] 7 = Some 7 \<and> cast int64_torch [7, 8] 8 = Some 8"
    by (simp add: int64_torch_def)
  from h wildcard_concatenation_flag [OF refl, where T = int64_torch and rng = id and
      d = "''cpu''" and dA = "''cpu''" and sA = 10 and aA = 11 and nA = 12 and rA = 1 and
      tA = 0 and xA = 7 and dB = "''cpu''" and sB = 20 and aB = 21 and nB = 22 and
      rB = 2 and tB = 0 and xB = 8 and cA = 7 and cB = 8]
  show ?thesis by simp
qed

section \<open>Clearing the store\<close>

text \<open>
  Claim C4. \<^verbatim>\<open>clear()\<close> should empty the item list and reset the write cursor to 0, as
  the constructor does for the empty store it makes. The code empties the list and leaves
  the cursor where it was. A store of capacity 2 that received three records has its
  cursor at 1 after \<^verbatim>\<open>clear()\<close>; filled again with three records r4, r5, r6 it holds r4
  and r6: the third record overwrote slot 1, the newest of the two, where a fresh store
  given the same three records holds r6 and r5.
\<close>

theorem clear_leaves_stale_cursor:
  assumes "list_all (\<lambda>tr. has_keys tr req \<and> keys tr = ks)
             [r1, r2, r3, r4, r5, r6 :: 's transition]"
  shows "buffer (clear (self :: 's Buffer)) = [] \<and> size_buffer (clear self) = 0 \<and>
         index (clear self) = index self \<and>
         index (clear (store_after (init 2 d) [r1, r2, r3] req)) = 1 \<and>
         buffer (store_after (clear (store_after (init 2 d) [r1, r2, r3] req)) [r4, r5, r6] req) =
           [to d r4, to d r6] \<and>
         buffer (store_after (init 2 d) [r4, r5, r6] req) = [to d r6, to d r5]"
proof -
  have fill: "store_after (init 2 d) [a, b, c] req =
      \<lparr> buffer_size = 2, buffer_device = d, buffer = [to d c, to d b], index = 1 \<rparr>"
    if "has_keys a req" "has_keys b req" "has_keys c req" "keys a = ks" "keys b = ks"
      "keys c = ks" for a b c :: "'s transition"
    using that
    by (simp add: init_def append_to_room append_to_full keys_to)
  have refill: "store_after
        (clear \<lparr> buffer_size = 2, buffer_device = d, buffer = xs, index = 1 \<rparr>) [a, b, c] req =
      \<lparr> buffer_size = 2, buffer_device = d, buffer = [to d a, to d c], index = 0 \<rparr>"
    if "has_keys a req" "has_keys b req" "has_keys c req" "keys a = ks" "keys b = ks"
      "keys c = ks" for a b c :: "'s transition" and xs
    using that
    by (simp add: clear_def append_to_room append_to_full keys_to)
  have a: "store_after (init 2 d) [r1, r2, r3] req =
      \<lparr> buffer_size = 2, buffer_device = d, buffer = [to d r3, to d r2], index = 1 \<rparr>"
    using assms by (intro fill) simp_all
  have b: "store_after (init 2 d) [r4, r5, r6] req =
      \<lparr> buffer_size = 2, buffer_device = d, buffer = [to d r6, to d r5], index = 1 \<rparr>"
    using assms by (intro fill) simp_all
  have c: "store_after
        (clear \<lparr> buffer_size = 2, buffer_device = d, buffer = [to d r3, to d r2], index = 1 \<rparr>)
        [r4, r5, r6] req =
      \<lparr> buffer_size = 2, buffer_device = d, buffer = [to d r4, to d r6], index = 0 \<rparr>"
    using assms by (intro refill) simp_all
  show ?thesis
    unfolding a b c by (simp add: clear_def size_buffer_def)
qed

theorem clear_leaves_stale_cursor_witness:
  "list_all (\<lambda>tr. has_keys tr default_required_attrs \<and> keys tr = default_required_attrs)
     [minimal_record ''cpu'' 10 11 12 (1::int) 0, minimal_record ''cpu'' 20 21 22 2 0,
      minimal_record ''cpu'' 30 31 32 3 0, minimal_record ''cpu'' 40 41 42 4 0,
      minimal_record ''cpu'' 50 51 52 5 0, minimal_record ''cpu'' 60 61 62 6 1] \<and>
   index (clear (store_after (init 2 ''cpu'')
     [minimal_record ''cpu'' 10 11 12 (1::int) 0, minimal_record ''cpu'' 20 21 22 2 0,
      minimal_record ''cpu'' 30 31 32 3 0] default_required_attrs)) = 1 \<and>
   buffer (store_after (clear (store_after (init 2 ''cpu'')
     [minimal_record ''cpu'' 10 11 12 (1::int) 0, minimal_record ''cpu'' 20 21 22 2 0,
      minimal_record ''cpu'' 30 31 32 3 0] default_required_attrs))
     [minimal_record ''cpu'' 40 41 42 4 0, minimal_record ''cpu'' 50 51 52 5 0,
      minimal_record ''cpu'' 60 61 62 6 1] default_required_attrs) =
     [minimal_record ''cpu'' 40 41 42 4 0, minimal_record ''cpu'' 60 61 62 6 1] \<and>
   buffer (store_after (init 2 ''cpu'')
     [minimal_record ''cpu'' 40 41 42 (4::int) 0, minimal_record ''cpu'' 50 51 52 5 0,
      minimal_record ''cpu'' 60 61 62 6 1] default_required_attrs) =
     [minimal_record ''cpu'' 60 61 62 6 1, minimal_record ''cpu'' 50 51 52 5 0]"
proof -
  have h: "list_all (\<lambda>tr. has_keys tr default_required_attrs \<and> keys tr = default_required_attrs)
     [minimal_record ''cpu'' 10 11 12 (1::int) 0, minimal_record ''cpu'' 20 21 22 2 0,
      minimal_record ''cpu'' 30 31 32 3 0, minimal_record ''cpu'' 40 41 42 4 0,
      minimal_record ''cpu'' 50 51 52 5 0, minimal_record ''cpu'' 60 61 62 6 1]"
    by (simp add: has_keys_minimal_record keys_minimal_record)
  from clear_leaves_stale_cursor [OF h, of "init 2 ''cpu''" "''cpu''"] h
  show ?thesis by (simp add: to_minimal_record del: store_after.simps)
qed

section \<open>Schema errors of append\<close>

text \<open>
  Claim C5, as amended. For every store, candidate and list of required attributes:
  when the candidate does not have all required attributes, \<^verbatim>\<open>append\<close> raises the
  \<^verbatim>\<open>ValueError\<close> that names the missing keys, the required names that are not among the
  candidate's keys, and every required name absent from the candidate is among them;
  when the candidate has them, the store holds a record and the candidate's key list
  differs from that of the record in slot 0, \<^verbatim>\<open>append\<close> raises the \<^verbatim>\<open>ValueError\<close>
  with the fixed message, which names no key; this is the case in particular when the
  major and sub key sets differ while the custom key names agree. Whenever one of the two
  errors is raised the store is as it was before the call, its size included.
\<close>

theorem append_schema_errors:
  "(\<not> has_keys tr req \<longrightarrow>
      fst (append_buffer self tr req) =
        Inl (ValueError_missing_attributes (set req - set (keys tr))) \<and>
      fst (snd (append_buffer self tr req)) = self) \<and>
   (k \<in> set req \<and> k \<notin> set (keys tr) \<longrightarrow>
      \<not> has_keys tr req \<and>
      k \<in> carried_keys (projl (fst (append_buffer self tr req)))) \<and>
   (has_keys tr req \<and> size_buffer self \<noteq> 0 \<and> keys (buffer self ! 0) \<noteq> keys tr \<longrightarrow>
      fst (append_buffer self tr req) = Inl ValueError_different_attributes \<and>
      carried_keys (projl (fst (append_buffer self tr req))) = {} \<and>
      fst (snd (append_buffer self tr req)) = self) \<and>
   (has_keys tr req \<and> size_buffer self \<noteq> 0 \<and>
    map fst (custom tr) = map fst (custom (buffer self ! 0)) \<and>
    set (major_attr tr) \<union> set (sub_attr tr) \<noteq>
      set (major_attr (buffer self ! 0)) \<union> set (sub_attr (buffer self ! 0)) \<longrightarrow>
      fst (append_buffer self tr req) = Inl ValueError_different_attributes) \<and>
   ((\<exists>ks. fst (append_buffer self tr req) = Inl (ValueError_missing_attributes ks)) \<or>
    fst (append_buffer self tr req) = Inl ValueError_different_attributes \<longrightarrow>
      fst (snd (append_buffer self tr req)) = self \<and>
      size_buffer (fst (snd (append_buffer self tr req))) = size_buffer self)"
proof (intro conjI impI)
  assume a: "has_keys tr req \<and> size_buffer self \<noteq> 0 \<and>
    map fst (custom tr) = map fst (custom (buffer self ! 0)) \<and>
    set (major_attr tr) \<union> set (sub_attr tr) \<noteq>
      set (major_attr (buffer self ! 0)) \<union> set (sub_attr (buffer self ! 0))"
  then have "keys (buffer self ! 0) \<noteq> keys tr"
    by (rule_tac keys_differ) simp_all
  with a show "fst (append_buffer self tr req) = Inl ValueError_different_attributes"
    by (simp add: append_different)
next
  assume "\<not> has_keys tr req"
  then show "fst (append_buffer self tr req) =
      Inl (ValueError_missing_attributes (set req - set (keys tr)))"
    and "fst (snd (append_buffer self tr req)) = self"
    by (simp_all add: append_missing)
next
  assume k: "k \<in> set req \<and> k \<notin> set (keys tr)"
  then show "\<not> has_keys tr req" using has_keys_subset by blast
  then show "k \<in> carried_keys (projl (fst (append_buffer self tr req)))"
    using k by (simp add: append_missing)
next
  assume "has_keys tr req \<and> size_buffer self \<noteq> 0 \<and> keys (buffer self ! 0) \<noteq> keys tr"
  then show "fst (append_buffer self tr req) = Inl ValueError_different_attributes"
    and "carried_keys (projl (fst (append_buffer self tr req))) = {}"
    and "fst (snd (append_buffer self tr req)) = self"
    by (simp_all add: append_different)
next
  assume "(\<exists>ks. fst (append_buffer self tr req) = Inl (ValueError_missing_attributes ks)) \<or>
    fst (append_buffer self tr req) = Inl ValueError_different_attributes"
  then have "\<not> has_keys tr req \<or>
      (has_keys tr req \<and> size_buffer self \<noteq> 0 \<and> keys (buffer self ! 0) \<noteq> keys tr)"
    by (simp only: append_schema_error_iff)
  then have "append_buffer self tr req =
        (Inl (ValueError_missing_attributes (set req - set (keys tr))), self, tr) \<or>
      append_buffer self tr req =
        (Inl ValueError_different_attributes, self, to (buffer_device self) tr)"
    using append_missing [of tr req self] append_different [of tr req self] by blast
  then show "fst (snd (append_buffer self tr req)) = self"
    and "size_buffer (fst (snd (append_buffer self tr req))) = size_buffer self"
    by auto
qed

text \<open>
  Both errors at concrete inputs: a candidate with a reward only, and a candidate with
  one sub attribute more than the record the store holds.
\<close>

theorem append_schema_errors_witness:
  "\<not> has_keys (reward_record (1::int)) default_required_attrs \<and>
   ''state'' \<in> set default_required_attrs \<and> ''state'' \<notin> set (keys (reward_record (1::int))) \<and>
   fst (append_buffer (init 2 ''cpu'') (reward_record (1::int)) default_required_attrs) =
     Inl (ValueError_missing_attributes {''state'', ''action'', ''next_state'', ''terminal''}) \<and>
   fst (snd (append_buffer (init 2 ''cpu'') (reward_record (1::int)) default_required_attrs)) =
     init 2 ''cpu'' \<and>
   has_keys ((minimal_record ''cpu'' 20 21 22 (2::int) 0)
       \<lparr>sub := [(''reward'', Scalar 2), (''terminal'', Scalar 0), (''extra'', Scalar 0)]\<rparr>)
     default_required_attrs \<and>
   size_buffer (store_after (init 2 ''cpu'') [minimal_record ''cpu'' 10 11 12 (1::int) 0]
     default_required_attrs) \<noteq> 0 \<and>
   fst (append_buffer
     (store_after (init 2 ''cpu'') [minimal_record ''cpu'' 10 11 12 (1::int) 0]
        default_required_attrs)
     ((minimal_record ''cpu'' 20 21 22 (2::int) 0)
       \<lparr>sub := [(''reward'', Scalar 2), (''terminal'', Scalar 0), (''extra'', Scalar 0)]\<rparr>)
     default_required_attrs) = Inl ValueError_different_attributes \<and>
   fst (snd (append_buffer
     (store_after (init 2 ''cpu'') [minimal_record ''cpu'' 10 11 12 (1::int) 0]
        default_required_attrs)
     ((minimal_record ''cpu'' 20 21 22 (2::int) 0)
       \<lparr>sub := [(''reward'', Scalar 2), (''terminal'', Scalar 0), (''extra'', Scalar 0)]\<rparr>)
     default_required_attrs)) =
     store_after (init 2 ''cpu'') [minimal_record ''cpu'' 10 11 12 (1::int) 0]
        default_required_attrs"
proof -
  let ?S = "store_after (init 2 ''cpu'') [minimal_record ''cpu'' 10 11 12 (1::int) 0]
        default_required_attrs"
  let ?X = "(minimal_record ''cpu'' 20 21 22 (2::int) 0)
       \<lparr>sub := [(''reward'', Scalar 2), (''terminal'', Scalar 0), (''extra'', Scalar 0)]\<rparr>"
  have h1: "\<not> has_keys (reward_record (1::int)) default_required_attrs"
    by code_simp
  have h2: "''state'' \<in> set default_required_attrs \<and>
      ''state'' \<notin> set (keys (reward_record (1::int)))"
    by code_simp
  have h3: "has_keys ?X default_required_attrs \<and> size_buffer ?S \<noteq> 0 \<and>
      keys (buffer ?S ! 0) \<noteq> keys ?X"
    by code_simp
  have missing: "set default_required_attrs - set (keys (reward_record (1::int))) =
      {''state'', ''action'', ''next_state'', ''terminal''}"
    by (auto simp: default_required_attrs_def keys_def reward_record_def major_attr_def
          sub_attr_def)
  from h1 h2 h3 missing
    append_schema_errors [of "reward_record (1::int)" default_required_attrs "init 2 ''cpu''"
      "''state''"]
    append_schema_errors [of ?X default_required_attrs ?S "''state''"]
  show ?thesis by simp
qed

text \<open>
  Claim C5 as stated has the error name the offending keys on both paths, and has it
  raised whenever the major and sub key sets differ. The error of the second path carries
  no key. And a candidate that has "extra" as a sub attribute is admitted at slot 1 of a
  store whose record has "extra" as a custom attribute: the key lists agree.
\<close>

theorem append_schema_errors_counterexample:
  "fst (append_buffer
     (store_after (init 2 ''cpu'') [minimal_record ''cpu'' 10 11 12 (1::int) 0]
        default_required_attrs)
     ((minimal_record ''cpu'' 20 21 22 (2::int) 0)
       \<lparr>sub := [(''reward'', Scalar 2), (''terminal'', Scalar 0), (''extra'', Scalar 0)]\<rparr>)
     default_required_attrs) = Inl ValueError_different_attributes \<and>
   carried_keys ValueError_different_attributes = {} \<and>
   set (major_attr ((minimal_record ''cpu'' 20 21 22 (2::int) 0)
         \<lparr>sub := [(''reward'', Scalar 2), (''terminal'', Scalar 0), (''extra'', Scalar 0)]\<rparr>)) \<union>
     set (sub_attr ((minimal_record ''cpu'' 20 21 22 (2::int) 0)
         \<lparr>sub := [(''reward'', Scalar 2), (''terminal'', Scalar 0), (''extra'', Scalar 0)]\<rparr>)) \<noteq>
   set (major_attr ((minimal_record ''cpu'' 10 11 12 (1::int) 0)
         \<lparr>custom := [(''extra'', Scalar 0)]\<rparr>)) \<union>
     set (sub_attr ((minimal_record ''cpu'' 10 11 12 (1::int) 0)
         \<lparr>custom := [(''extra'', Scalar 0)]\<rparr>)) \<and>
   fst (append_buffer
     (store_after (init 2 ''cpu'')
        [(minimal_record ''cpu'' 10 11 12 (1::int) 0)\<lparr>custom := [(''extra'', Scalar 0)]\<rparr>]
        default_required_attrs)
     ((minimal_record ''cpu'' 20 21 22 (2::int) 0)
       \<lparr>sub := [(''reward'', Scalar 2), (''terminal'', Scalar 0), (''extra'', Scalar 0)]\<rparr>)
     default_required_attrs) = Inr 1"
  by code_simp

section \<open>Sizes of the sampled batches\<close>

text \<open>
  Claim C6, as amended. For every item list and every batch size that is not negative:
  \<^verbatim>\<open>random_unique\<close> returns \<open>min batch_size (len items)\<close> items, drawn without
  replacement, and all items in some order when the batch size is at least the number of
  items; \<^verbatim>\<open>random\<close> returns \<open>batch_size\<close> items of a non-empty list. \<^verbatim>\<open>all\<close>
  returns the items in storage order whatever the batch size, negative or not. Each
  reports the number of items it returns as the realized size.
\<close>

theorem sampling_size_contracts:
  "(0 \<le> batch_size \<longrightarrow>
      (\<exists>batch. sample_method_random_unique rng buf batch_size =
                 Inr (batch, min batch_size (int (length buf))) \<and>
               int (length batch) = min batch_size (int (length buf)) \<and>
               mset batch \<subseteq># mset buf \<and>
               (int (length buf) \<le> batch_size \<longrightarrow> mset batch = mset buf)) \<and>
      (buf \<noteq> [] \<longrightarrow>
        (\<exists>batch. sample_method_random rng buf batch_size = Inr (batch, batch_size) \<and>
                 int (length batch) = batch_size \<and> set batch \<subseteq> set buf))) \<and>
   sample_method_all buf batch_size = Inr (buf, int (length buf))"
proof (intro conjI impI)
  assume nonneg: "0 \<le> batch_size"
  show "\<exists>batch. sample_method_random_unique rng buf batch_size =
                  Inr (batch, min batch_size (int (length buf))) \<and>
                int (length batch) = min batch_size (int (length buf)) \<and>
                mset batch \<subseteq># mset buf \<and>
                (int (length buf) \<le> batch_size \<longrightarrow> mset batch = mset buf)"
  proof (cases "int (length buf) < batch_size")
    case True
    then show ?thesis
      by (simp add: sample_method_random_unique_def random_sample_ok length_sample_pool
            mset_sample_pool_all)
  next
    case False
    with nonneg have k: "nat batch_size \<le> length buf" by simp
    have all: "int (length buf) \<le> batch_size \<Longrightarrow> nat batch_size = length buf"
      using False by simp
    from False nonneg show ?thesis
      by (auto simp: sample_method_random_unique_def random_sample_ok length_sample_pool
            mset_sample_pool_subset [OF k] all mset_sample_pool_all)
  qed
next
  assume "0 \<le> batch_size" and "buf \<noteq> []"
  then show "\<exists>batch. sample_method_random rng buf batch_size = Inr (batch, batch_size) \<and>
                     int (length batch) = batch_size \<and> set batch \<subseteq> set buf"
    by (auto simp: sample_method_random_ok)
next
  show "sample_method_all buf batch_size = Inr (buf, int (length buf))"
    by (simp add: sample_method_all_def)
qed

text \<open>The contracts at a list of three items and batch size 2.\<close>

theorem sampling_size_contracts_witness:
  "(0::int) \<le> 2 \<and> [10, 20, 30 :: int] \<noteq> [] \<and>
   (\<exists>batch. sample_method_random_unique id [10, 20, 30 :: int] 2 = Inr (batch, 2) \<and>
            int (length batch) = 2 \<and> mset batch \<subseteq># mset [10, 20, 30]) \<and>
   (\<exists>batch. sample_method_random id [10, 20, 30 :: int] 2 = Inr (batch, 2) \<and>
            int (length batch) = 2 \<and> set batch \<subseteq> set [10, 20, 30]) \<and>
   sample_method_all [10, 20, 30 :: int] 2 = Inr ([10, 20, 30], 3)"
  using sampling_size_contracts [of 2 id "[10, 20, 30 :: int]"] by simp

text \<open>
  Claim C6 as stated covers every batch size. At \<open>-1\<close> the \<^verbatim>\<open>random\<close> strategy returns
  no item and reports \<open>-1\<close> as the realized size, and \<^verbatim>\<open>random_unique\<close> raises the
  \<^verbatim>\<open>ValueError\<close> of \<^verbatim>\<open>random.sample\<close>.
\<close>

theorem sampling_negative_size_counterexample:
  "sample_method_random id [10, 20, 30 :: int] (- 1) = Inr ([], - 1) \<and>
   sample_method_random_unique id [10, 20, 30 :: int] (- 1) = Inl ValueError_sample"
  by (simp add: sample_method_random_def sample_method_random_unique_def random_sample_def)

section \<open>The random strategy on an empty store\<close>

text \<open>
  Claim C7, as amended. For every batch size of at least 1, the \<^verbatim>\<open>random\<close> strategy
  applied to an empty item list fails with the \<^verbatim>\<open>ValueError\<close> that
  \<^verbatim>\<open>random.randint(0, -1)\<close> raises, and so does \<^verbatim>\<open>sample_batch\<close> on an empty store
  with that strategy. For a batch size of 0 or less no index is drawn: the strategy
  returns the empty batch and the batch size, and raises nothing.
\<close>

theorem random_on_empty_store:
  "(0 < batch_size \<longrightarrow>
      sample_method_random rng ([] :: 's transition list) batch_size =
        Inl ValueError_empty_range \<and>
      (buffer self = [] \<longrightarrow>
         sample_batch T rng (self :: 's Buffer) batch_size concatenate device (Name ''random'')
           sample_attrs additional_concat_attrs = Inl ValueError_empty_range)) \<and>
   (batch_size \<le> 0 \<longrightarrow>
      sample_method_random rng ([] :: 's transition list) batch_size = Inr ([], batch_size))"
proof (intro conjI impI)
  assume "0 < batch_size"
  then show "sample_method_random rng ([] :: 's transition list) batch_size =
               Inl ValueError_empty_range"
    by (rule sample_method_random_empty)
next
  assume "0 < batch_size" and "buffer self = []"
  then show "sample_batch T rng self batch_size concatenate device (Name ''random'')
               sample_attrs additional_concat_attrs = Inl ValueError_empty_range"
    by (simp add: sample_batch_def getattr_sample_method_def sample_method_random_empty)
next
  assume "batch_size \<le> 0"
  then show "sample_method_random rng ([] :: 's transition list) batch_size =
               Inr ([], batch_size)"
    by (simp add: sample_method_random_def)
qed

theorem random_on_empty_store_witness:
  "(0::int) < 5 \<and> buffer (init 2 ''cpu'' :: int Buffer) = [] \<and>
   sample_method_random id ([] :: int transition list) 5 = Inl ValueError_empty_range \<and>
   sample_batch int64_torch id (init 2 ''cpu'') 5 True None (Name ''random'')
     (Some [''reward'']) None = Inl ValueError_empty_range \<and>
   (- 3 :: int) \<le> 0 \<and>
   sample_method_random id ([] :: int transition list) (- 3) = Inr ([], - 3)"
  using random_on_empty_store [where batch_size = 5 and rng = id and T = int64_torch and
      self = "init 2 ''cpu''" and concatenate = True and device = None and
      sample_attrs = "Some [''reward'']" and additional_concat_attrs = None]
    random_on_empty_store [where batch_size = "- 3" and rng = id and T = int64_torch and
      self = "init 2 ''cpu''"]
  by (simp add: init_def)

text \<open>
  Claim C7 as stated covers every batch size. At 0 the strategy returns the empty batch
  and \<^verbatim>\<open>sample_batch\<close> returns size 0 and \<^verbatim>\<open>None\<close> for the requested attribute.
\<close>

theorem random_on_empty_store_counterexample:
  "sample_method_random id ([] :: int transition list) 0 = Inr ([], 0) \<and>
   sample_batch int64_torch id (init 2 ''cpu'') 0 True None (Name ''random'')
     (Some [''reward'']) None = Inr (0, [PyNone])"
  by code_simp

section \<open>Unknown strategy names\<close>

text \<open>
  Claim C8. For every selector string other than "random_unique", "random" and "all", the
  names of the three strategies the class defines, \<^verbatim>\<open>sample_batch\<close> fails with the
  error that carries the selector string (a \<^verbatim>\<open>RuntimeError\<close> in the source), whatever
  the store and the other arguments.
\<close>

theorem unknown_sample_method:
  assumes "s \<notin> {''random_unique'', ''random'', ''all''}"
  shows "sample_batch T rng self batch_size concatenate device (Name s) sample_attrs
           additional_concat_attrs = Inl (RuntimeError_cannot_find_sample_method s)"
  using assms by (simp add: sample_batch_def getattr_sample_method_def)

theorem unknown_sample_method_witness:
  "''prioritized'' \<notin> {''random_unique'', ''random'', ''all''} \<and>
   sample_batch int64_torch id (init 2 ''cpu'') 5 True None (Name ''prioritized'') None None =
     Inl (RuntimeError_cannot_find_sample_method ''prioritized'')"
  using unknown_sample_method [where s = "''prioritized''" and T = int64_torch and rng = id and
      self = "init 2 ''cpu''" and batch_size = 5 and concatenate = True and device = None and
      sample_attrs = None and additional_concat_attrs = None]
  by simp

section \<open>The stacking rule\<close>

text \<open>
  Claim C9, as amended. Given the values of an attribute across the sampled records, in
  order, \<^verbatim>\<open>make_tensor_from_batch\<close> yields \<^verbatim>\<open>None\<close> for the empty list and the list
  itself when concatenation is disabled. For \<open>N\<close> scalars with concatenation enabled it
  yields, when torch accepts the target device and casts every scalar, one tensor of
  shape \<open>(N, 1)\<close> on the target device whose \<open>i\<close>-th element is the cast of the
  \<open>i\<close>-th value, which is the value itself where the cast keeps it; when torch refuses
  the device or one of the scalars, the call raises torch's error. For a store whose
  records have the scalar "reward" as their only sub attribute, with values
  \<open>r\<^sub>1 \<dots> r\<^sub>n\<close>, sampling all with concatenation and requesting the reward
  yields the realized size \<open>n\<close> and that tensor of shape \<open>(n, 1)\<close>, in storage order.
\<close>

theorem stacking_rule:
  "make_tensor_from_batch T ([] :: 's pyval list) d concatenate = Inr PyNone \<and>
   (vs \<noteq> [] \<longrightarrow> make_tensor_from_batch T (vs :: 's pyval list) d False = Inr (PyList vs)) \<and>
   (xs \<noteq> [] \<and> available T d \<and> those (map (cast T xs) xs) = Some ys \<longrightarrow>
      make_tensor_from_batch T (map Scalar (xs :: 's list)) d True =
        Inr (Single (Tensor d [length xs, 1] ys)) \<and>
      length ys = length xs \<and>
      (\<forall>i. i < length xs \<longrightarrow> cast T xs (xs ! i) = Some (ys ! i))) \<and>
   (xs \<noteq> [] \<and> available T d \<and> (\<forall>x \<in> set xs. cast T xs x = Some x) \<longrightarrow>
      make_tensor_from_batch T (map Scalar xs) d True =
        Inr (Single (Tensor d [length xs, 1] xs))) \<and>
   (xs \<noteq> [] \<and> (\<not> available T d \<or> those (map (cast T xs) xs) = None) \<longrightarrow>
      make_tensor_from_batch T (map Scalar xs) d True = Inl TorchError) \<and>
   (rs \<noteq> [] \<and>
    list_all2 (\<lambda>tr r. sub tr = [(''reward'', Scalar r)] \<and> ''reward'' \<notin> set (major_attr tr))
      (buffer (self :: 's Buffer)) rs \<and>
    (sample_attrs = Some [''reward''] \<or>
     sample_attrs = None \<and> keys (buffer self ! 0) = [''reward'']) \<and>
    dev = (case device of None \<Rightarrow> buffer_device self | Some d' \<Rightarrow> d') \<and>
    available T dev \<and> those (map (cast T rs) rs) = Some cs \<longrightarrow>
      sample_batch T rng self batch_size True device (Name ''all'') sample_attrs
          additional_concat_attrs =
        Inr (int (length rs), [Single (Tensor dev [length rs, 1] cs)]))"
proof (intro conjI impI allI)
  show "make_tensor_from_batch T ([] :: 's pyval list) d concatenate = Inr PyNone"
    by (simp add: make_tensor_from_batch_def)
next
  assume "vs \<noteq> []"
  then show "make_tensor_from_batch T vs d False = Inr (PyList vs)"
    by (simp add: make_tensor_from_batch_def)
next
  assume "xs \<noteq> [] \<and> available T d \<and> those (map (cast T xs) xs) = Some ys"
  then show "make_tensor_from_batch T (map Scalar xs) d True =
      Inr (Single (Tensor d [length xs, 1] ys))"
    by (simp add: stack_scalars)
next
  assume "xs \<noteq> [] \<and> available T d \<and> those (map (cast T xs) xs) = Some ys"
  then show "length ys = length xs"
    by (auto dest: length_those)
next
  fix i
  assume "xs \<noteq> [] \<and> available T d \<and> those (map (cast T xs) xs) = Some ys"
    and "i < length xs"
  then show "cast T xs (xs ! i) = Some (ys ! i)"
    using nth_those [of "map (cast T xs) xs" ys i] by simp
next
  assume a: "xs \<noteq> [] \<and> available T d \<and> (\<forall>x \<in> set xs. cast T xs x = Some x)"
  then have "those (map (cast T xs) xs) = Some xs"
    by (intro those_exact) simp
  with a show "make_tensor_from_batch T (map Scalar xs) d True =
      Inr (Single (Tensor d [length xs, 1] xs))"
    by (simp add: stack_scalars)
next
  assume "xs \<noteq> [] \<and> (\<not> available T d \<or> those (map (cast T xs) xs) = None)"
  then show "make_tensor_from_batch T (map Scalar xs) d True = Inl TorchError"
    by (intro stack_scalars_fails) simp_all
next
  assume "rs \<noteq> [] \<and>
    list_all2 (\<lambda>tr r. sub tr = [(''reward'', Scalar r)] \<and> ''reward'' \<notin> set (major_attr tr))
      (buffer self) rs \<and>
    (sample_attrs = Some [''reward''] \<or>
     sample_attrs = None \<and> keys (buffer self ! 0) = [''reward'']) \<and>
    dev = (case device of None \<Rightarrow> buffer_device self | Some d' \<Rightarrow> d') \<and>
    available T dev \<and> those (map (cast T rs) rs) = Some cs"
  then show "sample_batch T rng self batch_size True device (Name ''all'') sample_attrs
          additional_concat_attrs =
        Inr (int (length rs), [Single (Tensor dev [length rs, 1] cs)])"
    by (elim conjE) (rule sample_sole_reward, assumption+)
qed

text \<open>
  The rule with torch on Python ints: three rewards stacked on "cuda", also from a store
  whose records have major attributes, and the error on a device name torch does not know.
\<close>

theorem stacking_rule_witness:
  "[Scalar (1::int), Tensor ''cpu'' [1] [2]] \<noteq> [] \<and>
   make_tensor_from_batch int64_torch [Scalar 1, Tensor ''cpu'' [1] [2]] ''cuda'' False =
     Inr (PyList [Scalar 1, Tensor ''cpu'' [1] [2]]) \<and>
   [5, 7, 9 :: int] \<noteq> [] \<and> available int64_torch ''cuda'' \<and>
   those (map (cast int64_torch [5, 7, 9]) [5, 7, 9]) = Some [5, 7, 9] \<and>
   make_tensor_from_batch int64_torch (map Scalar [5, 7, 9]) ''cuda'' True =
     Inr (Single (Tensor ''cuda'' [3, 1] [5, 7, 9])) \<and>
   \<not> available int64_torch ''gpu'' \<and>
   make_tensor_from_batch int64_torch (map Scalar [5, 7, 9]) ''gpu'' True = Inl TorchError \<and>
   list_all2 (\<lambda>tr r. sub tr = [(''reward'', Scalar r)] \<and> ''reward'' \<notin> set (major_attr tr))
     (buffer ((init 4 ''cpu'')\<lparr>buffer :=
        [(minimal_record ''cpu'' 10 11 12 (5::int) 0)\<lparr>sub := [(''reward'', Scalar 5)]\<rparr>,
         (minimal_record ''cpu'' 20 21 22 7 0)\<lparr>sub := [(''reward'', Scalar 7)]\<rparr>,
         (minimal_record ''cpu'' 30 31 32 9 0)\<lparr>sub := [(''reward'', Scalar 9)]\<rparr>]\<rparr>))
     [5, 7, 9 :: int] \<and>
   sample_batch int64_torch id
     ((init 4 ''cpu'')\<lparr>buffer :=
        [(minimal_record ''cpu'' 10 11 12 (5::int) 0)\<lparr>sub := [(''reward'', Scalar 5)]\<rparr>,
         (minimal_record ''cpu'' 20 21 22 7 0)\<lparr>sub := [(''reward'', Scalar 7)]\<rparr>,
         (minimal_record ''cpu'' 30 31 32 9 0)\<lparr>sub := [(''reward'', Scalar 9)]\<rparr>]\<rparr>)
     1 True (Some ''cuda'') (Name ''all'') (Some [''reward'']) None =
     Inr (3, [Single (Tensor ''cuda'' [3, 1] [5, 7, 9])])"
proof -
  let ?S = "(init 4 ''cpu'')\<lparr>buffer :=
        [(minimal_record ''cpu'' 10 11 12 5 0)\<lparr>sub := [(''reward'', Scalar 5)]\<rparr>,
         (minimal_record ''cpu'' 20 21 22 7 0)\<lparr>sub := [(''reward'', Scalar 7)]\<rparr>,
         (minimal_record ''cpu'' 30 31 32 (9::int) 0)\<lparr>sub := [(''reward'', Scalar 9)]\<rparr>]\<rparr>"
  have ok: "available int64_torch ''cuda''" "\<not> available int64_torch ''gpu''"
      "those (map (cast int64_torch [5, 7, 9]) [5, 7, 9]) = Some [5, 7, 9]"
    by (simp_all add: int64_torch_def)
  have recs: "list_all2
      (\<lambda>tr r. sub tr = [(''reward'', Scalar r)] \<and> ''reward'' \<notin> set (major_attr tr))
      (buffer ?S) [5, 7, 9]"
    by (simp add: minimal_record_def major_attr_def)
  note good = stacking_rule [where T = int64_torch and d = "''cuda''" and
      vs = "[Scalar 1, Tensor ''cpu'' [1] [2]]" and xs = "[5, 7, 9]" and ys = "[5, 7, 9]" and
      rs = "[5, 7, 9]" and cs = "[5, 7, 9]" and self = ?S and
      sample_attrs = "Some [''reward'']" and dev = "''cuda''" and device = "Some ''cuda''" and
      rng = id and batch_size = 1 and additional_concat_attrs = None and concatenate = True]
  note bad = stacking_rule [where T = int64_torch and d = "''gpu''" and xs = "[5, 7, 9]" and
      vs = "[]" and ys = "[]" and rs = "[]" and cs = "[]" and self = ?S and
      sample_attrs = None and dev = "''cpu''" and device = None and
      rng = id and batch_size = 1 and additional_concat_attrs = None and concatenate = True]
  have g1: "make_tensor_from_batch int64_torch [Scalar 1, Tensor ''cpu'' [1] [2]] ''cuda'' False =
      Inr (PyList [Scalar 1, Tensor ''cpu'' [1] [2]])"
    using good by simp
  have g2: "make_tensor_from_batch int64_torch (map Scalar [5, 7, 9]) ''cuda'' True =
      Inr (Single (Tensor ''cuda'' [3, 1] [5, 7, 9]))"
    using good ok by (simp add: numeral_3_eq_3)
  have g3: "sample_batch int64_torch id ?S 1 True (Some ''cuda'') (Name ''all'')
      (Some [''reward'']) None = Inr (3, [Single (Tensor ''cuda'' [3, 1] [5, 7, 9])])"
    using good ok recs by (simp add: numeral_3_eq_3)
  have b1: "make_tensor_from_batch int64_torch (map Scalar [5, 7, 9]) ''gpu'' True =
      Inl TorchError"
    using bad ok by simp
  show ?thesis
    using g1 g2 g3 b1 ok recs by (intro conjI) simp_all
qed

text \<open>
  Claim C9 as stated has the tensor built from every list of scalars, with the values as
  its elements. The Python int \<open>2\<^sup>6\<^sup>3\<close> is a scalar that a tensor of 64-bit integers
  cannot hold: \<^verbatim>\<open>t.tensor\<close> raises, in the stacking rule and in \<^verbatim>\<open>sample_batch\<close>.
\<close>

theorem stacking_rule_counterexample:
  "available int64_torch ''cpu'' \<and>
   make_tensor_from_batch int64_torch [Scalar 9223372036854775808] ''cpu'' True =
     Inl TorchError \<and>
   sample_batch int64_torch id
     ((init 4 ''cpu'')\<lparr>buffer := [reward_record 9223372036854775808]\<rparr>)
     1 True None (Name ''all'') (Some [''reward'']) None = Inl TorchError"
  by (simp add: int64_torch_def make_tensor_from_batch_def torch_tensor_def sample_batch_def
        getattr_sample_method_def sample_method_all_def post_process_batch_def init_def
        reward_record_def major_attr_def sub_attr_def resolve_plain_def collect_def getitem_def)

section \<open>Relocation before the rejection\<close>

text \<open>
  Claim C10. When \<^verbatim>\<open>append\<close> rejects a candidate because its keys differ from those of
  the stored records, the candidate has been relocated already: after the call it is the
  candidate with every array-like on the store's device, while the items and the write
  cursor of the store are unchanged.
\<close>

theorem append_relocates_before_mismatch:
  assumes "fst (append_buffer self tr req) = Inl ValueError_different_attributes"
  shows "snd (snd (append_buffer self tr req)) = to (buffer_device self) tr \<and>
         all_on_device (buffer_device self) (snd (snd (append_buffer self tr req))) \<and>
         buffer (fst (snd (append_buffer self tr req))) = buffer self \<and>
         index (fst (snd (append_buffer self tr req))) = index self"
proof -
  from assms have "has_keys tr req \<and> size_buffer self \<noteq> 0 \<and> keys (buffer self ! 0) \<noteq> keys tr"
    using append_schema_error_iff(2) by blast
  then have "append_buffer self tr req =
      (Inl ValueError_different_attributes, self, to (buffer_device self) tr)"
    by (simp add: append_different)
  then show ?thesis by (simp add: all_on_device_to)
qed

theorem append_relocates_before_mismatch_witness:
  "fst (append_buffer
     (store_after (init 2 ''cpu'') [minimal_record ''cpu'' 10 11 12 (1::int) 0]
        default_required_attrs)
     ((minimal_record ''cuda'' 20 21 22 (2::int) 0)\<lparr>custom := [(''note'', Tensor ''cuda'' [1] [7])]\<rparr>)
     default_required_attrs) = Inl ValueError_different_attributes \<and>
   snd (snd (append_buffer
     (store_after (init 2 ''cpu'') [minimal_record ''cpu'' 10 11 12 (1::int) 0]
        default_required_attrs)
     ((minimal_record ''cuda'' 20 21 22 (2::int) 0)\<lparr>custom := [(''note'', Tensor ''cuda'' [1] [7])]\<rparr>)
     default_required_attrs)) =
     (minimal_record ''cpu'' 20 21 22 (2::int) 0)\<lparr>custom := [(''note'', Tensor ''cpu'' [1] [7])]\<rparr> \<and>
   buffer (fst (snd (append_buffer
     (store_after (init 2 ''cpu'') [minimal_record ''cpu'' 10 11 12 (1::int) 0]
        default_required_attrs)
     ((minimal_record ''cuda'' 20 21 22 (2::int) 0)\<lparr>custom := [(''note'', Tensor ''cuda'' [1] [7])]\<rparr>)
     default_required_attrs))) = [minimal_record ''cpu'' 10 11 12 1 0]"
proof -
  let ?S = "store_after (init 2 ''cpu'') [minimal_record ''cpu'' 10 11 12 (1::int) 0]
        default_required_attrs"
  let ?X = "(minimal_record ''cuda'' 20 21 22 (2::int) 0)
        \<lparr>custom := [(''note'', Tensor ''cuda'' [1] [7])]\<rparr>"
  have h: "fst (append_buffer ?S ?X default_required_attrs) = Inl ValueError_different_attributes"
    by code_simp
  have S: "buffer ?S = [minimal_record ''cpu'' 10 11 12 1 0]"
    by code_simp
  have X: "to (buffer_device ?S) ?X =
      (minimal_record ''cpu'' 20 21 22 (2::int) 0)\<lparr>custom := [(''note'', Tensor ''cpu'' [1] [7])]\<rparr>"
    by code_simp
  from append_relocates_before_mismatch [OF h] h S X show ?thesis by simp
qed

end
